theory Spec2Isabelle
  imports Complex_Main "HOL-Library.Word"
begin

unbundle bit_operations_syntax

section \<open>Python values used by \<open>droid/connection.py\<close>\<close>

text \<open>
  A \<open>bytes\<close> or \<open>bytearray\<close> object is a list of 8-bit words; indexing it yields the
  unsigned value of the element (\<open>uint\<close>). A \<open>str\<close> is a \<open>string\<close>; every character
  outside ASCII is rejected by \<open>bytes.fromhex\<close>, so 8-bit characters suffice.
  Exceptions are values of \<open>error\<close>.
\<close>

type_synonym byte = "8 word"

datatype error = ValueError | IndexError | KeyError | AttributeError | BleakError | Interrupted

subsection \<open>\<open>bytes.fromhex\<close> and \<open>bytearray.hex\<close>\<close>

text \<open>
  \<open>Py_ISSPACE\<close>: the six ASCII whitespace characters (tab, line feed, vertical tab,
  form feed, carriage return, space).
\<close>

definition isspace :: "char \<Rightarrow> bool" where
  "isspace c = (let n = (of_char c :: nat) in (9 \<le> n \<and> n \<le> 13) \<or> n = 32)"

text \<open>The value of a hexadecimal digit, \<open>None\<close> for any other character.\<close>

definition hexval :: "char \<Rightarrow> nat option" where
  "hexval c =
     (let n = (of_char c :: nat)
      in if 48 \<le> n \<and> n \<le> 57 then Some (n - 48)
         else if 97 \<le> n \<and> n \<le> 102 then Some (n - 87)
         else if 65 \<le> n \<and> n \<le> 70 then Some (n - 55)
         else None)"

definition is_hexdigit :: "char \<Rightarrow> bool" where
  "is_hexdigit c = (hexval c \<noteq> None)"

text \<open>
  \<open>bytes.fromhex(s)\<close>: two hexadecimal digits per byte; ASCII whitespace is skipped where
  a byte may start (so also before the first and after the last byte), never between
  the two digits of a byte. \<open>None\<close> stands for the \<open>ValueError\<close> it raises.
\<close>

fun fromhex :: "string \<Rightarrow> byte list option" where
  "fromhex [] = Some []"
| "fromhex [c] = (if isspace c then Some [] else None)"
| "fromhex (c # d # ds) =
     (if isspace c then fromhex (d # ds)
      else (case (hexval c, hexval d) of
              (Some hi, Some lo) \<Rightarrow>
                (case fromhex ds of
                   None \<Rightarrow> None
                 | Some bs \<Rightarrow> Some (of_nat (16 * hi + lo) # bs))
            | _ \<Rightarrow> None))"

text \<open>\<open>bytearray.hex()\<close>: two lower-case hexadecimal digits per byte.\<close>

definition hexdigit :: "nat \<Rightarrow> char" where
  "hexdigit n = (if n < 10 then char_of (48 + n) else char_of (87 + n))"

fun hex :: "byte list \<Rightarrow> string" where
  "hex [] = []"
| "hex (b # bs) = hexdigit (unat b div 16) # hexdigit (unat b mod 16) # hex bs"

text \<open>
  \<open>bytearray(ints)\<close>: every element must be in \<open>range(0, 256)\<close>, otherwise
  \<open>ValueError\<close>.
\<close>

definition in_byte_range :: "int \<Rightarrow> bool" where
  "in_byte_range x = (0 \<le> x \<and> x < 256)"

definition bytearray_of :: "int list \<Rightarrow> error + byte list" where
  "bytearray_of xs = (if list_all in_byte_range xs then Inr (map word_of_int xs) else Inl ValueError)"

section \<open>The frame encoder\<close>

text \<open>
  \<open>DroidConnection.build_droid_command\<close>. The construction of the header and the
  decoding of the payload are both inside the \<open>try\<close>, and every \<open>ValueError\<close> raised
  there is raised again as \<open>ValueError\<close>.
\<close>

definition build_droid_command :: "int \<Rightarrow> string \<Rightarrow> error + byte list" where
  "build_droid_command command_id data =
     (let data_length = int (length data) div 2;
          header_length = 3;
          byte2 = (if command_id = 15 then 0x42 else 0x00);
          total_length = data_length + header_length;
          byte1 = total_length OR 0x20;
          byte3 = command_id;
          byte4 = data_length + 0x40
      in case bytearray_of [byte1, byte2, byte3, byte4] of
           Inl _ \<Rightarrow> Inl ValueError
         | Inr command_bytes \<Rightarrow>
             (case fromhex data of
                None \<Rightarrow> Inl ValueError
              | Some payload \<Rightarrow> Inr (command_bytes @ payload)))"


section \<open>The transport\<close>

text \<open>
  The BLE library is not part of the repository. Its client object is modelled by the
  contract \<open>connection.py\<close> relies on: \<open>connect()\<close> either raises \<open>BleakError\<close> or
  leaves the client connected; \<open>write_gatt_char\<close> on a connected client performs the
  write, recorded here as (handle, data, response argument), and raises \<open>BleakError\<close> on
  a client that is not connected; \<open>disconnect()\<close> closes the link and does not raise.
  The number of \<open>disconnect()\<close> calls is recorded.
\<close>

record BLEDevice =
  address :: string
  name :: "string option"

record BleakClient =
  peer :: BLEDevice
  is_connected :: bool
  gatt_writes :: "(nat \<times> byte list \<times> bool option) list"
  disconnect_calls :: nat

definition new_client :: "BLEDevice \<Rightarrow> BleakClient" where
  "new_client dev = \<lparr>peer = dev, is_connected = False, gatt_writes = [], disconnect_calls = 0\<rparr>"

definition client_connect :: "bool \<Rightarrow> BleakClient \<Rightarrow> error + BleakClient" where
  "client_connect reachable c = (if reachable then Inr (c\<lparr>is_connected := True\<rparr>) else Inl BleakError)"

definition client_write :: "BleakClient \<Rightarrow> nat \<Rightarrow> byte list \<Rightarrow> bool option \<Rightarrow> error + BleakClient" where
  "client_write c h bs resp =
     (if is_connected c then Inr (c\<lparr>gatt_writes := gatt_writes c @ [(h, bs, resp)]\<rparr>)
      else Inl BleakError)"

definition client_disconnect :: "BleakClient \<Rightarrow> BleakClient" where
  "client_disconnect c = c\<lparr>is_connected := False, disconnect_calls := Suc (disconnect_calls c)\<rparr>"

section \<open>The session\<close>

datatype loop_state = LoopCreated | LoopRunning | LoopStopped

record DroidConnection =
  profile :: BLEDevice
  droid :: "BleakClient option"
  manufacturer_data :: "(int \<times> byte list) list"
  personality_id :: int
  affilliation_id :: rat
  heartbeat_loop :: "loop_state option"
  heartbeat_thread :: bool

text \<open>
  A method of the session: it takes the session and returns the session as it has left
  it, with either the exception it raised or \<open>()\<close>.
\<close>

type_synonym coroutine = "DroidConnection \<Rightarrow> (error + unit) \<times> DroidConnection"

definition py_pass :: coroutine where
  "py_pass s = (Inr (), s)"

definition py_raise :: "error \<Rightarrow> coroutine" where
  "py_raise e s = (Inl e, s)"

definition seq :: "coroutine \<Rightarrow> coroutine \<Rightarrow> coroutine" where
  "seq f g s = (case f s of (Inl e, s') \<Rightarrow> (Inl e, s') | (Inr _, s') \<Rightarrow> g s')"

text \<open>
  \<open>try: body finally: cleanup\<close>: the cleanup runs on the state the body has left,
  whether or not the body raised; an exception of the cleanup replaces the body's.
\<close>

definition try_finally :: "coroutine \<Rightarrow> coroutine \<Rightarrow> coroutine" where
  "try_finally body cleanup s =
     (case body s of
        (r, s') \<Rightarrow> (case cleanup s' of (Inl e, s'') \<Rightarrow> (Inl e, s'') | (Inr _, s'') \<Rightarrow> (r, s'')))"

text \<open>\<open>await self.droid.write_gatt_char(h, bs, resp)\<close>\<close>

definition write_gatt_char :: "nat \<Rightarrow> byte list \<Rightarrow> bool option \<Rightarrow> coroutine" where
  "write_gatt_char h bs resp s =
     (case droid s of
        None \<Rightarrow> (Inl AttributeError, s)
      | Some c \<Rightarrow>
          (case client_write c h bs resp of
             Inl e \<Rightarrow> (Inl e, s)
           | Inr c' \<Rightarrow> (Inr (), s\<lparr>droid := Some c'\<rparr>)))"

text \<open>\<open>DroidConnection.send_droid_command\<close>\<close>

definition send_droid_command :: "int \<Rightarrow> string \<Rightarrow> coroutine" where
  "send_droid_command command_id data s =
     (case build_droid_command command_id data of
        Inl e \<Rightarrow> (Inl e, s)
      | Inr command \<Rightarrow>
          (case droid s of
             None \<Rightarrow> (Inl AttributeError, s)
           | Some _ \<Rightarrow>
               (case fromhex (hex command) of
                  None \<Rightarrow> (Inl ValueError, s)
                | Some bs \<Rightarrow> write_gatt_char 0x000d bs None s)))"

text \<open>\<open>"{:02d}".format(n)\<close>: decimal, sign-aware zero padding to width 2.\<close>

fun decimal :: "nat \<Rightarrow> string" where
  "decimal n = (if n < 10 then [char_of (48 + n)] else decimal (n div 10) @ [char_of (48 + n mod 10)])"

definition format_02d :: "int \<Rightarrow> string" where
  "format_02d n =
     (if n < 0 then CHR ''-'' # replicate (1 - length (decimal (nat (- n)))) CHR ''0'' @ decimal (nat (- n))
      else replicate (2 - length (decimal (nat n))) CHR ''0'' @ decimal (nat n))"

text \<open>
  The constants that \<open>connection.py\<close> imports from \<open>droid.protocol\<close> and
  \<open>droid.hardware\<close>, the two collaborators, and the behaviour of the environment are
  parameters of the model.
\<close>

text \<open>
  Modelled from the spec: \<open>DroidAudioController\<close> and \<open>DroidScriptEngine\<close> are not among
  the sources. The audio and script subsystems ``call \<open>send_command(id, hex_payload)\<close> or
  \<open>send_multi_command(sub_id, hex_payload)\<close>; they never touch the transport directly'',
  a script is ``an ordered list of commands with inter-step delays'', and each may fail.
\<close>

datatype action = SendCommand int string | SendMultiCommand int string | Delay rat | Fail error

record world =
  DisneyManufacturerId :: int
  RUnit :: int
  Scoundrel :: rat
  FlashPairingLed :: int
  MultipurposeCommand :: int
  DroidPairingSequence1 :: "action list"
  shutdown_audio :: "action list"
  peer_reachable :: bool
  sleep_raises :: "rat \<Rightarrow> error option"

text \<open>\<open>sleep(t)\<close> changes nothing in the session; the environment may interrupt it.\<close>

definition sleep :: "world \<Rightarrow> rat \<Rightarrow> coroutine" where
  "sleep w t s = (case sleep_raises w t of None \<Rightarrow> (Inr (), s) | Some e \<Rightarrow> (Inl e, s))"

text \<open>\<open>DroidConnection.send_droid_multi_command\<close>\<close>

definition send_droid_multi_command :: "world \<Rightarrow> int \<Rightarrow> string \<Rightarrow> coroutine" where
  "send_droid_multi_command w command_id data =
     send_droid_command (MultipurposeCommand w) (''44'' @ format_02d command_id @ data)"

fun run_action :: "world \<Rightarrow> action \<Rightarrow> coroutine" where
  "run_action w (SendCommand c d) = send_droid_command c d"
| "run_action w (SendMultiCommand c d) = send_droid_multi_command w c d"
| "run_action w (Delay t) = sleep w t"
| "run_action w (Fail e) = py_raise e"

fun run_actions :: "world \<Rightarrow> action list \<Rightarrow> coroutine" where
  "run_actions w [] = py_pass"
| "run_actions w (a # as) = seq (run_action w a) (run_actions w as)"

text \<open>
  Modelled from the spec: \<open>DroidAudioController.play_shutdown_audio\<close> and
  \<open>DroidScriptEngine.execute_script\<close>, which are not among the sources, run the
  actions that the environment gives for the cue and for the script.
\<close>

definition play_shutdown_audio :: "world \<Rightarrow> coroutine" where
  "play_shutdown_audio w = run_actions w (shutdown_audio w)"

definition execute_script :: "world \<Rightarrow> action list \<Rightarrow> coroutine" where
  "execute_script w script = run_actions w script"

declare decimal.simps [simp del]

subsection \<open>Construction\<close>

text \<open>\<open>DroidConnection.__init__\<close>\<close>

definition DroidConnection_init :: "world \<Rightarrow> BLEDevice \<Rightarrow> (int \<times> byte list) list \<Rightarrow> DroidConnection" where
  "DroidConnection_init w prof mdata =
     \<lparr>profile = prof, droid = None, manufacturer_data = mdata,
      personality_id = RUnit w, affilliation_id = Scoundrel w,
      heartbeat_loop = Some LoopCreated, heartbeat_thread = False\<rparr>"

subsection \<open>Connect\<close>

text \<open>Lines 73--74: \<open>self.droid = BleakClient(self.profile); await self.droid.connect()\<close>\<close>

definition open_transport :: "world \<Rightarrow> coroutine" where
  "open_transport w s =
     (let s1 = s\<lparr>droid := Some (new_client (profile s))\<rparr>
      in case client_connect (peer_reachable w) (new_client (profile s)) of
           Inl e \<Rightarrow> (Inl e, s1)
         | Inr c \<Rightarrow> (Inr (), s1\<lparr>droid := Some c\<rparr>))"

text \<open>
  Lines 76--78: the status poll. \<open>n\<close> counts the tenths already waited; the ceiling of 10
  time units is 100 tenths. The source adds the float \<open>.1\<close> to \<open>timeout\<close>; the number
  of rounds changes nothing in the session, which the blocking \<open>sleep\<close> leaves as it is.
\<close>

function wait_connected :: "world \<Rightarrow> nat \<Rightarrow> coroutine" where
  "wait_connected w n s =
     (case droid s of
        None \<Rightarrow> (Inl AttributeError, s)
      | Some c \<Rightarrow>
          (if \<not> is_connected c \<and> n < 100
           then (case sleep w (1 / 10) s of
                   (Inl e, s') \<Rightarrow> (Inl e, s')
                 | (Inr _, s') \<Rightarrow> wait_connected w (Suc n) s')
           else (Inr (), s)))"
  by pat_completeness auto
termination
  by (relation "measure (\<lambda>(w, n, s). 100 - n)") auto

declare wait_connected.simps [simp del]

text \<open>Python indexing of a \<open>bytes\<close> object: a negative index counts from the end.\<close>

definition getitem :: "byte list \<Rightarrow> int \<Rightarrow> error + int" where
  "getitem xs i =
     (let n = int (length xs); j = (if i < 0 then i + n else i)
      in if 0 \<le> j \<and> j < n then Inr (uint (xs ! nat j)) else Inl IndexError)"

text \<open>
  Lines 84--87: the identity is read from the manufacturer data. The division is
  Python's true division; its result is an integer or a half, which the floating-point
  type represents exactly, so it is modelled as a rational.
\<close>

definition derive_identity :: "world \<Rightarrow> coroutine" where
  "derive_identity w s =
     (case map_of (manufacturer_data s) (DisneyManufacturerId w) of
        None \<Rightarrow> (Inl KeyError, s)
      | Some droid_data \<Rightarrow>
          (let droid_data_len = int (length droid_data)
           in case getitem droid_data (droid_data_len - 1) of
                Inl e \<Rightarrow> (Inl e, s)
              | Inr p \<Rightarrow>
                  (let s1 = s\<lparr>personality_id := p\<rparr>
                   in case getitem droid_data (droid_data_len - 2) of
                        Inl e \<Rightarrow> (Inl e, s1)
                      | Inr a \<Rightarrow> (Inr (), s1\<lparr>affilliation_id := (of_int a - 0x80) / 2\<rparr>))))"

text \<open>Lines 80--82: the handshake frame is decoded once and written twice.\<close>

definition handshake :: coroutine where
  "handshake s =
     (case fromhex ''222001'' of
        None \<Rightarrow> (Inl ValueError, s)
      | Some connect_code \<Rightarrow>
          seq (write_gatt_char 0x000d connect_code (Some False))
              (write_gatt_char 0x000d connect_code (Some False)) s)"

text \<open>
  Lines 93--95: the heartbeat thread is started and the heartbeat coroutine is handed
  to its event loop. The coroutine itself runs beside the caller and is modelled below.
\<close>

definition start_heartbeat :: coroutine where
  "start_heartbeat s =
     (case heartbeat_loop s of
        None \<Rightarrow> (Inl AttributeError, s\<lparr>heartbeat_thread := True\<rparr>)
      | Some _ \<Rightarrow> (Inr (), s\<lparr>heartbeat_thread := True, heartbeat_loop := Some LoopRunning\<rparr>))"

text \<open>
  Lines 89--95: unless \<open>silent\<close>, the pairing script and the settle time; then the
  heartbeat is started.
\<close>

definition connect_rest :: "world \<Rightarrow> bool \<Rightarrow> coroutine" where
  "connect_rest w silent =
     seq (if \<not> silent then seq (execute_script w (DroidPairingSequence1 w)) (sleep w 4) else py_pass)
         start_heartbeat"

text \<open>\<open>DroidConnection.connect\<close>\<close>

definition connect :: "world \<Rightarrow> bool \<Rightarrow> coroutine" where
  "connect w silent =
     seq (open_transport w)
    (seq (wait_connected w 0)
    (seq handshake
    (seq (derive_identity w)
         (connect_rest w silent))))"

subsection \<open>Disconnect\<close>

text \<open>The \<open>finally\<close> block of \<open>disconnect\<close>, lines 126--129.\<close>

definition close_transport :: coroutine where
  "close_transport s =
     (case droid s of
        None \<Rightarrow> (Inl AttributeError, s)
      | Some c \<Rightarrow> (Inr (), s\<lparr>droid := Some (client_disconnect c)\<rparr>))"

definition stop_heartbeat_loop :: coroutine where
  "stop_heartbeat_loop s =
     (if heartbeat_loop s \<noteq> None then (Inr (), s\<lparr>heartbeat_loop := Some LoopStopped\<rparr>)
      else (Inr (), s))"

text \<open>\<open>DroidConnection.disconnect\<close>\<close>

definition disconnect :: "world \<Rightarrow> bool \<Rightarrow> coroutine" where
  "disconnect w silent =
     try_finally
       (if \<not> silent then seq (play_shutdown_audio w) (sleep w 3) else py_pass)
       (seq close_transport stop_heartbeat_loop)"


section \<open>The keep-alive task\<close>









definition writes_of :: "DroidConnection \<Rightarrow> (nat \<times> byte list \<times> bool option) list" where
  "writes_of s = (case droid s of None \<Rightarrow> [] | Some c \<Rightarrow> gatt_writes c)"

section \<open>Discovery\<close>

record AdvertisementData =
  local_name :: "string option"
  adv_manufacturer_data :: "(int \<times> byte list) list"

text \<open>
  One reading of \<open>scanner.discovered_devices_and_advertisement_data\<close>: the devices seen
  so far, by address, in the order of the dictionary.
\<close>

type_synonym snapshot = "(string \<times> BLEDevice \<times> AdvertisementData) list"

type_synonym candidate = "BLEDevice \<times> (int \<times> byte list) list"

definition find_droid :: "BLEDevice \<Rightarrow> AdvertisementData \<Rightarrow> bool" where
  "find_droid device advertising_data = (if local_name advertising_data = Some ''DROID'' then True else False)"

text \<open>The \<open>for\<close> loop of lines 236--239.\<close>

fun collect_droids :: "snapshot \<Rightarrow> candidate list \<Rightarrow> candidate list" where
  "collect_droids [] droids = droids"
| "collect_droids ((addr, ble_device, advertising_data) # rest) droids =
     collect_droids rest
       (if name ble_device = Some ''DROID''
        then droids @ [(ble_device, adv_manufacturer_data advertising_data)] else droids)"

text \<open>
  The \<open>while\<close> loop of lines 231--253. \<open>scan k\<close> is what the scanner reports at the
  \<open>k\<close>-th reading. The loop leaves either by the \<open>return\<close> of line 245 or by its test.
  With \<open>retry\<close> set it need not end: \<open>None\<close> is the run that never leaves the loop.
  The scanner belongs to the BLE library; entering and leaving its context and
  \<open>scanner.start()\<close> are taken to succeed, and \<open>asyncio.sleep(5)\<close> and the logging
  change nothing that the function returns.
\<close>

datatype loop_exit = Returned | Left "candidate option"

partial_function (option) scan_loop ::
    "(nat \<Rightarrow> snapshot) \<Rightarrow> bool \<Rightarrow> nat \<Rightarrow> candidate list \<Rightarrow> candidate option \<Rightarrow> loop_exit option" where
  "scan_loop scan retry k droids discovered_droid =
     (if retry \<and> length droids = 0
      then (case collect_droids (scan k) droids of
              [] \<Rightarrow> (if \<not> retry then Some Returned
                     else scan_loop scan retry (Suc k) [] discovered_droid)
            | d # ds \<Rightarrow> scan_loop scan retry (Suc k) (d # ds) (Some d))
      else Some (Left discovered_droid))"

text \<open>\<open>discover_droid\<close>; the outer \<open>None\<close> is the call that does not return.\<close>

definition discover_droid :: "world \<Rightarrow> (nat \<Rightarrow> snapshot) \<Rightarrow> bool \<Rightarrow> DroidConnection option option" where
  "discover_droid w scan retry =
     (case scan_loop scan retry 0 [] None of
        None \<Rightarrow> None
      | Some Returned \<Rightarrow> Some None
      | Some (Left None) \<Rightarrow> Some None
      | Some (Left (Some (ble_device, mdata))) \<Rightarrow> Some (Some (DroidConnection_init w ble_device mdata)))"

section \<open>Notions used in the statements\<close>

subsection \<open>The frame layout in the words of the specification\<close>

text \<open>
  The four header bytes the specification prescribes for a command id and a payload of
  \<open>n\<close> bytes: the tagged length, the flag, the command id, the tagged payload length.
\<close>

definition spec_frame_header :: "int \<Rightarrow> nat \<Rightarrow> int list" where
  "spec_frame_header command_id n =
     [(int n + 3) OR 0x20, (if command_id = 15 then 0x42 else 0x00), command_id, int n + 0x40]"

subsection \<open>What a collaborator can do to the session\<close>

text \<open>
  A write made by \<open>send_droid_command\<close>: to handle \<open>0x000d\<close>, without a response
  argument, of a frame of at least four bytes.
\<close>

definition command_write :: "nat \<times> byte list \<times> bool option \<Rightarrow> bool" where
  "command_write x = (case x of (h, bs, resp) \<Rightarrow> h = 0x000d \<and> resp = None \<and> 4 \<le> length bs)"

text \<open>\<open>s'\<close> is \<open>s\<close> after some command writes, and nothing else has changed.\<close>

definition sent_commands :: "DroidConnection \<Rightarrow> DroidConnection \<Rightarrow> bool" where
  "sent_commands s s' =
     (\<exists>ws. list_all command_write ws \<and>
           s' = s\<lparr>droid := map_option (\<lambda>c. c\<lparr>gatt_writes := gatt_writes c @ ws\<rparr>) (droid s)\<rparr>)"

subsection \<open>The handshake\<close>

definition handshake_write :: "nat \<times> byte list \<times> bool option" where
  "handshake_write = (0x000d, [0x22, 0x20, 0x01], Some False)"

definition is_handshake_frame :: "nat \<times> byte list \<times> bool option \<Rightarrow> bool" where
  "is_handshake_frame x = (fst (snd x) = [0x22, 0x20, 0x01])"

definition connected_client :: "BLEDevice \<Rightarrow> BleakClient" where
  "connected_client dev = (new_client dev)\<lparr>is_connected := True\<rparr>"

text \<open>
  The session as the handshake leaves it when the peer is reachable: a fresh connected
  client whose only writes are the two handshake writes.
\<close>

definition handshaken :: "DroidConnection \<Rightarrow> DroidConnection" where
  "handshaken s = s\<lparr>droid := Some ((connected_client (profile s))\<lparr>gatt_writes := [handshake_write, handshake_write]\<rparr>)\<rparr>"

subsection \<open>The heartbeat\<close>

text \<open>
  The frame of \<open>FlashPairingLed\<close> with payload \<open>020001ff01ff0aff00\<close>, and the write that
  carries it.
\<close>

definition heartbeat_frame :: "world \<Rightarrow> byte list" where
  "heartbeat_frame w =
     map word_of_int (spec_frame_header (FlashPairingLed w) 9) @
     [0x02, 0x00, 0x01, 0xff, 0x01, 0xff, 0x0a, 0xff, 0x00]"




subsection \<open>A concrete run\<close>

text \<open>
  An environment, a device and a session on which the theorems below are instantiated:
  the peer is reachable, no sleep is interrupted, the pairing script sends one
  multi-command, the shutdown cue sends one command. In \<open>failing_cue_world\<close> the
  shutdown cue raises after its command.
\<close>

definition example_world :: world where
  "example_world =
     \<lparr>DisneyManufacturerId = 0x0183, RUnit = 1, Scoundrel = 1, FlashPairingLed = 0,
      MultipurposeCommand = 15,
      DroidPairingSequence1 = [SendMultiCommand 5 ''ff'', Delay 2],
      shutdown_audio = [SendCommand 3 ''0102''],
      peer_reachable = True, sleep_raises = (\<lambda>t. None)\<rparr>"

definition failing_cue_world :: world where
  "failing_cue_world = example_world\<lparr>shutdown_audio := [SendCommand 3 ''0102'', Fail BleakError]\<rparr>"

definition example_device :: BLEDevice where
  "example_device = \<lparr>address = ''AA:BB'', name = Some ''DROID''\<rparr>"

definition example_session :: DroidConnection where
  "example_session = DroidConnection_init example_world example_device [(0x0183, [0x03, 0x04, 0x80, 0x07])]"

definition example_connected :: DroidConnection where
  "example_connected = snd (connect example_world False example_session)"





section \<open>Properties of the codec\<close>

lemma hexval_lt16: "hexval c = Some v \<Longrightarrow> v < 16"
  by (auto simp: hexval_def Let_def split: if_splits)

lemma hexdigit_not_space: "is_hexdigit c \<Longrightarrow> \<not> isspace c"
  by (auto simp: is_hexdigit_def hexval_def isspace_def Let_def split: if_splits)

lemma fromhex_hexdigits:
  "list_all is_hexdigit data \<Longrightarrow> even (length data) \<Longrightarrow>
     \<exists>payload. fromhex data = Some payload \<and> length payload = length data div 2"
proof (induction data rule: fromhex.induct)
  case 1
  then show ?case by simp
next
  case (2 c)
  then show ?case by simp
next
  case (3 c d ds)
  from "3.prems" have c: "is_hexdigit c" and d: "is_hexdigit d" and ds: "list_all is_hexdigit ds"
    and ev: "even (length ds)" by simp_all
  from c have nsp: "\<not> isspace c" by (rule hexdigit_not_space)
  from c d obtain hi lo where hv: "hexval c = Some hi" "hexval d = Some lo"
    by (auto simp: is_hexdigit_def)
  from "3.IH"(2) [OF nsp refl hv(1) hv(2) ds ev] obtain p where "fromhex ds = Some p" "length p = length ds div 2"
    by auto
  with nsp hv show ?case by simp
qed

lemma fromhex_odd_hexdigits:
  "list_all is_hexdigit data \<Longrightarrow> odd (length data) \<Longrightarrow> fromhex data = None"
proof (induction data rule: fromhex.induct)
  case 1
  then show ?case by simp
next
  case (2 c)
  then show ?case by (simp add: hexdigit_not_space)
next
  case (3 c d ds)
  from "3.prems" have c: "is_hexdigit c" and d: "is_hexdigit d" and ds: "list_all is_hexdigit ds"
    and od: "odd (length ds)" by simp_all
  from c have nsp: "\<not> isspace c" by (rule hexdigit_not_space)
  from c d obtain hi lo where hv: "hexval c = Some hi" "hexval d = Some lo"
    by (auto simp: is_hexdigit_def)
  from "3.IH"(2) [OF nsp refl hv(1) hv(2) ds od] have "fromhex ds = None" by simp
  with nsp hv show ?case by simp
qed

lemma fromhex_bad_char:
  "c \<in> set data \<Longrightarrow> \<not> is_hexdigit c \<Longrightarrow> \<not> isspace c \<Longrightarrow> fromhex data = None"
proof (induction data rule: fromhex.induct)
  case 1
  then show ?case by simp
next
  case (2 x)
  then show ?case by simp
next
  case (3 x d ds)
  show ?case
  proof (cases "isspace x")
    case True
    with "3.prems" have "c \<in> set (d # ds)" by auto
    with "3.IH"(1) [OF True] "3.prems" True show ?thesis by simp
  next
    case False
    show ?thesis
    proof (cases "hexval x")
      case None
      with False show ?thesis by simp
    next
      case (Some hi)
      note hi = this
      show ?thesis
      proof (cases "hexval d")
        case None
        with False hi show ?thesis by simp
      next
        case (Some lo)
        from hi Some "3.prems" have "c \<in> set ds" by (auto simp: is_hexdigit_def)
        with "3.IH"(2) [OF False refl hi Some] "3.prems" have "fromhex ds = None" by simp
        with False hi Some show ?thesis by simp
      qed
    qed
  qed
qed

lemma or32_byte: "0 \<le> (x::int) \<Longrightarrow> x < 256 \<Longrightarrow> 0 \<le> x OR 0x20 \<and> x OR 0x20 < 256"
  using OR_upper [of x 8 "0x20"] by simp

lemma uint_word_of_int_byte: "in_byte_range x \<Longrightarrow> uint (word_of_int x :: byte) = x"
  by (simp add: in_byte_range_def uint_word_of_int)

lemma spec_frame_header_range:
  assumes "in_byte_range command_id" "n < 192"
  shows "list_all in_byte_range (spec_frame_header command_id n)"
proof -
  have "0 \<le> int n + 3" "int n + 3 < 256" using assms by simp_all
  then have "0 \<le> (int n + 3) OR 0x20 \<and> (int n + 3) OR 0x20 < 256" by (rule or32_byte)
  with assms show ?thesis by (simp add: spec_frame_header_def in_byte_range_def)
qed

lemma build_droid_command_unfold:
  "build_droid_command command_id data =
     (case bytearray_of (spec_frame_header command_id (length data div 2)) of
        Inl e \<Rightarrow> Inl ValueError
      | Inr command_bytes \<Rightarrow>
          (case fromhex data of None \<Rightarrow> Inl ValueError | Some payload \<Rightarrow> Inr (command_bytes @ payload)))"
  by (simp add: build_droid_command_def spec_frame_header_def Let_def zdiv_int)

lemma build_droid_command_too_long:
  assumes "192 \<le> length data div 2"
  shows "build_droid_command command_id data = Inl ValueError"
proof -
  from assms have "\<not> in_byte_range (int (length data div 2) + 0x40)"
    by (simp add: in_byte_range_def)
  then have "bytearray_of (spec_frame_header command_id (length data div 2)) = Inl ValueError"
    by (simp add: bytearray_of_def spec_frame_header_def)
  then show ?thesis by (simp add: build_droid_command_unfold)
qed

lemma fromhex_zeros: "fromhex (replicate (2 * n) CHR ''0'') = Some (replicate n 0)"
  by (induction n) (simp_all add: isspace_def hexval_def)

text \<open>
  Claim C1, as the code has it. For every command id in \<open>[0, 255]\<close> and every
  even-length string of hexadecimal digits: if the string decodes to at most 191 bytes,
  the encoder returns the four header bytes of the specification followed by the decoded
  payload: the length byte is \<open>(n + 3) | 0x20\<close>, the flag byte is \<open>0x42\<close> for command
  id 15 and \<open>0x00\<close> otherwise, then the command id, then \<open>n + 0x40\<close>, where \<open>n\<close> is the
  number of payload bytes; and if the string decodes to 192 bytes or more, the encoder
  raises \<open>ValueError\<close>.
\<close>

theorem build_droid_command_frame:
  assumes "in_byte_range command_id"
    and "list_all is_hexdigit data" and "even (length data)"
  shows "(length data div 2 < 192 \<longrightarrow>
           (\<exists>payload. fromhex data = Some payload \<and> length payload = length data div 2 \<and>
              build_droid_command command_id data =
                Inr (map word_of_int (spec_frame_header command_id (length payload)) @ payload) \<and>
              map uint (map word_of_int (spec_frame_header command_id (length payload)) :: byte list) =
                spec_frame_header command_id (length payload))) \<and>
         (192 \<le> length data div 2 \<longrightarrow> build_droid_command command_id data = Inl ValueError)"
proof (intro conjI impI)
  assume short: "length data div 2 < 192"
  from assms(2,3) obtain payload where p: "fromhex data = Some payload" "length payload = length data div 2"
    using fromhex_hexdigits by blast
  let ?h = "spec_frame_header command_id (length payload)"
  from assms(1) short p(2) have r: "list_all in_byte_range ?h"
    by (simp add: spec_frame_header_range)
  then have "bytearray_of ?h = Inr (map word_of_int ?h)" by (simp add: bytearray_of_def)
  with p have b: "build_droid_command command_id data = Inr (map word_of_int ?h @ payload)"
    by (simp add: build_droid_command_unfold)
  from r have "map uint (map word_of_int ?h :: byte list) = ?h"
    by (simp add: list_all_iff uint_word_of_int_byte map_idI)
  with p b show "\<exists>payload. fromhex data = Some payload \<and> length payload = length data div 2 \<and>
              build_droid_command command_id data =
                Inr (map word_of_int (spec_frame_header command_id (length payload)) @ payload) \<and>
              map uint (map word_of_int (spec_frame_header command_id (length payload)) :: byte list) =
                spec_frame_header command_id (length payload)"
    by blast
next
  assume "192 \<le> length data div 2"
  then show "build_droid_command command_id data = Inl ValueError"
    by (rule build_droid_command_too_long)
qed

theorem build_droid_command_frame_witness:
  "in_byte_range 15 \<and> list_all is_hexdigit ''4405ff'' \<and> even (length ''4405ff'') \<and>
   length ''4405ff'' div 2 < 192 \<and>
   build_droid_command 15 ''4405ff'' = Inr [0x26, 0x42, 0x0f, 0x43, 0x44, 0x05, 0xff] \<and>
   spec_frame_header 15 3 = [0x26, 0x42, 0x0f, 0x43] \<and>
   list_all is_hexdigit (replicate 384 CHR ''0'') \<and> even (length (replicate 384 CHR ''0'')) \<and>
   192 \<le> length (replicate 384 CHR ''0'') div 2 \<and>
   fromhex (replicate 384 CHR ''0'') = Some (replicate 192 0) \<and>
   build_droid_command 15 (replicate 384 CHR ''0'') = Inl ValueError"
proof -
  have h: "in_byte_range 15" "list_all is_hexdigit ''4405ff''" "even (length ''4405ff'')"
    by (simp_all add: in_byte_range_def is_hexdigit_def hexval_def)
  have l: "length ''4405ff'' div 2 < 192" by simp
  have f: "fromhex ''4405ff'' = Some [0x44, 0x05, 0xff]" by (simp add: isspace_def hexval_def)
  have s: "spec_frame_header 15 3 = [0x26, 0x42, 0x0f, 0x43]" by (simp add: spec_frame_header_def)
  from build_droid_command_frame [OF h] l obtain payload where
    p: "fromhex ''4405ff'' = Some payload"
    and b: "build_droid_command 15 ''4405ff'' =
              Inr (map word_of_int (spec_frame_header 15 (length payload)) @ payload)"
    by blast
  from p f have "payload = [0x44, 0x05, 0xff]" by (simp only: option.inject)
  with b have "build_droid_command 15 ''4405ff'' =
      Inr (map word_of_int (spec_frame_header 15 3) @ [0x44, 0x05, 0xff])"
    by (simp add: numeral_3_eq_3)
  with s have short: "build_droid_command 15 ''4405ff'' = Inr [0x26, 0x42, 0x0f, 0x43, 0x44, 0x05, 0xff]"
    by simp
  have z: "list_all is_hexdigit (replicate 384 CHR ''0'')" "even (length (replicate 384 CHR ''0''))"
    by (simp_all add: list_all_iff is_hexdigit_def hexval_def)
  have g: "192 \<le> length (replicate 384 CHR ''0'') div 2" by simp
  have "fromhex (replicate (2 * 192) CHR ''0'') = Some (replicate 192 0)" by (rule fromhex_zeros)
  then have d: "fromhex (replicate 384 CHR ''0'') = Some (replicate 192 0)" by simp
  from build_droid_command_frame [OF h(1) z] g
  have long: "build_droid_command 15 (replicate 384 CHR ''0'') = Inl ValueError" by blast
  from h l short s z g d long show ?thesis by blast
qed

text \<open>
  The claim C1 as it is written fails at two inputs. A payload of 192 zero bytes is an
  even-length string that decodes, and the encoder raises \<open>ValueError\<close>, because
  \<open>192 + 0x40\<close> is not a byte. The string \<open>"ff  "\<close> has even length and decodes to the
  single byte \<open>0xff\<close>, and the encoder computes the two length bytes from the length
  of the string: \<open>0x25\<close> and \<open>0x42\<close>, where the claim has \<open>0x24\<close> and \<open>0x41\<close>.
\<close>

theorem build_droid_command_frame_counterexample:
  "in_byte_range 0 \<and>
   even (length (replicate 384 CHR ''0'')) \<and>
   fromhex (replicate 384 CHR ''0'') = Some (replicate 192 0) \<and>
   build_droid_command 0 (replicate 384 CHR ''0'') = Inl ValueError \<and>
   build_droid_command 0 (replicate 384 CHR ''0'') \<noteq>
     Inr (map word_of_int (spec_frame_header 0 (length (replicate 192 (0 :: byte)))) @ replicate 192 0) \<and>
   even (length ''ff  '') \<and> fromhex ''ff  '' = Some [0xff] \<and>
   build_droid_command 0 ''ff  '' = Inr [0x25, 0x00, 0x00, 0x42, 0xff] \<and>
   build_droid_command 0 ''ff  '' \<noteq>
     Inr (map word_of_int (spec_frame_header 0 (length [0xff :: byte])) @ [0xff])"
proof -
  have "fromhex (replicate (2 * 192) CHR ''0'') = Some (replicate 192 0)" by (rule fromhex_zeros)
  then have z: "fromhex (replicate 384 CHR ''0'') = Some (replicate 192 0)" by simp
  have b: "build_droid_command 0 (replicate 384 CHR ''0'') = Inl ValueError"
    by (simp add: build_droid_command_unfold spec_frame_header_def bytearray_of_def in_byte_range_def)
  then have b': "build_droid_command 0 (replicate 384 CHR ''0'') \<noteq>
     Inr (map word_of_int (spec_frame_header 0 (length (replicate 192 (0 :: byte)))) @ replicate 192 0)"
    by simp
  have w: "fromhex ''ff  '' = Some [0xff]" by (simp add: isspace_def hexval_def)
  have c: "build_droid_command 0 ''ff  '' = Inr [0x25, 0x00, 0x00, 0x42, 0xff]"
    by (simp add: build_droid_command_unfold spec_frame_header_def bytearray_of_def in_byte_range_def
        isspace_def hexval_def)
  have d: "map word_of_int (spec_frame_header 0 (length [0xff :: byte])) @ [0xff] = [0x24, 0x00, 0x00, 0x41, 0xff :: byte]"
    by (simp add: spec_frame_header_def)
  have c': "build_droid_command 0 ''ff  '' \<noteq>
     Inr (map word_of_int (spec_frame_header 0 (length [0xff :: byte])) @ [0xff])"
    unfolding c d by simp
  have e: "in_byte_range 0" "even (length (replicate 384 CHR ''0''))" "even (length ''ff  '')"
    by (simp_all add: in_byte_range_def)
  from e z b b' w c c' show ?thesis by blast
qed

lemma hexval_hexdigit: "n < 16 \<Longrightarrow> hexval (hexdigit n) = Some n"
  by (auto simp: hexval_def hexdigit_def Let_def)

lemma hexdigit_is_hexdigit: "n < 16 \<Longrightarrow> \<not> isspace (hexdigit n)"
  by (auto simp: isspace_def hexdigit_def Let_def)

lemma byte_of_nibbles: "(of_nat (16 * (unat b div 16) + unat b mod 16) :: byte) = b"
  by simp

lemma unat_byte_div16: "unat (b :: byte) div 16 < 16"
  using unsigned_less [of b, where 'a = nat] by simp

lemma fromhex_hex: "fromhex (hex bs) = Some bs"
  by (induction bs) (simp_all add: hexval_hexdigit hexdigit_is_hexdigit unat_byte_div16)

lemma send_droid_command_eq:
  "send_droid_command command_id data s =
     (case build_droid_command command_id data of
        Inl e \<Rightarrow> (Inl e, s)
      | Inr command \<Rightarrow> write_gatt_char 0x000d command None s)"
  by (simp add: send_droid_command_def fromhex_hex write_gatt_char_def split: sum.splits option.splits)

lemma build_droid_command_error: "build_droid_command command_id data = Inl e \<Longrightarrow> e = ValueError"
  by (auto simp: build_droid_command_def Let_def split: sum.splits option.splits)

lemma build_droid_command_undecodable:
  "fromhex data = None \<Longrightarrow> build_droid_command command_id data = Inl ValueError"
  by (simp add: build_droid_command_def Let_def split: sum.splits)

text \<open>
  What the encoder rejects: every string that \<open>bytes.fromhex\<close> rejects, and then
  \<open>send_droid_command\<close> raises before it touches the transport. Such are the strings
  with a character that is neither a hexadecimal digit nor whitespace, the odd-length
  strings of hexadecimal digits, and strings such as \<open>"f f"\<close>, \<open>"abc "\<close> and \<open>" f"\<close>,
  where whitespace stands inside a byte or leaves a digit alone.
\<close>

lemma send_droid_command_undecodable:
  assumes "fromhex data = None"
  shows "build_droid_command command_id data = Inl ValueError \<and>
         send_droid_command command_id data s = (Inl ValueError, s)"
proof -
  from assms have "build_droid_command command_id data = Inl ValueError"
    by (rule build_droid_command_undecodable)
  then show ?thesis by (simp add: send_droid_command_eq)
qed

lemma fromhex_rejected_strings:
  "fromhex ''4g'' = None" "fromhex ''abc'' = None" "fromhex ''f f'' = None"
  "fromhex ''abc '' = None" "fromhex '' f'' = None"
  by (simp_all add: isspace_def hexval_def)

lemma format_02d_5: "format_02d 5 = ''05''"
  by code_simp

text \<open>
  Claim C5. Sending the multi-command with sub-command id 5 and payload \<open>"ff"\<close> is
  sending the multipurpose command with payload \<open>"4405ff"\<close>: the two calls have the
  same outcome and leave the same session, so they write the same bytes, and the two
  frames built are equal.
\<close>

theorem send_droid_multi_command_5_ff:
  "send_droid_multi_command w 5 ''ff'' s = send_droid_command (MultipurposeCommand w) ''4405ff'' s \<and>
   build_droid_command (MultipurposeCommand w) (''44'' @ format_02d 5 @ ''ff'') =
     build_droid_command (MultipurposeCommand w) ''4405ff''"
  by (simp add: send_droid_multi_command_def format_02d_5)

section \<open>What the collaborators leave unchanged\<close>

lemma sent_commands_refl: "sent_commands s s"
proof -
  have "s = s\<lparr>droid := map_option (\<lambda>c. c\<lparr>gatt_writes := gatt_writes c @ []\<rparr>) (droid s)\<rparr>"
    by (cases "droid s") simp_all
  then show ?thesis unfolding sent_commands_def by (intro exI [of _ "[]"]) simp
qed

lemma sent_commands_trans:
  assumes "sent_commands s s'" "sent_commands s' s''"
  shows "sent_commands s s''"
proof -
  from assms(1) obtain ws where ws: "list_all command_write ws"
    "s' = s\<lparr>droid := map_option (\<lambda>c. c\<lparr>gatt_writes := gatt_writes c @ ws\<rparr>) (droid s)\<rparr>"
    unfolding sent_commands_def by blast
  from assms(2) obtain vs where vs: "list_all command_write vs"
    "s'' = s'\<lparr>droid := map_option (\<lambda>c. c\<lparr>gatt_writes := gatt_writes c @ vs\<rparr>) (droid s')\<rparr>"
    unfolding sent_commands_def by blast
  have "s'' = s\<lparr>droid := map_option (\<lambda>c. c\<lparr>gatt_writes := gatt_writes c @ (ws @ vs)\<rparr>) (droid s)\<rparr>"
    unfolding vs(2) ws(2) by (cases "droid s") simp_all
  with ws(1) vs(1) show ?thesis unfolding sent_commands_def
    by (intro exI [of _ "ws @ vs"]) simp
qed

lemma build_droid_command_length:
  "build_droid_command command_id data = Inr frame \<Longrightarrow> 4 \<le> length frame"
  by (auto simp: build_droid_command_def bytearray_of_def Let_def split: sum.splits option.splits if_splits)

lemma send_droid_command_sent: 
  assumes "send_droid_command command_id data s = (r, s')"
  shows "sent_commands s s'"
proof (cases "build_droid_command command_id data")
  case (Inl e)
  with assms have "s' = s" by (simp add: send_droid_command_eq)
  then show ?thesis by (simp add: sent_commands_refl)
next
  case (Inr frame)
  then have len: "4 \<le> length frame" by (rule build_droid_command_length)
  show ?thesis
  proof (cases "droid s")
    case None
    with Inr assms have "s' = s" by (simp add: send_droid_command_eq write_gatt_char_def)
    then show ?thesis by (simp add: sent_commands_refl)
  next
    case (Some c)
    show ?thesis
    proof (cases "is_connected c")
      case False
      with Some Inr assms have "s' = s"
        by (simp add: send_droid_command_eq write_gatt_char_def client_write_def)
      then show ?thesis by (simp add: sent_commands_refl)
    next
      case True
      with Some Inr assms
      have "s' = s\<lparr>droid := map_option (\<lambda>c. c\<lparr>gatt_writes := gatt_writes c @ [(0x000d, frame, None)]\<rparr>) (droid s)\<rparr>"
        by (auto simp: send_droid_command_eq write_gatt_char_def client_write_def)
      with len show ?thesis unfolding sent_commands_def
        by (intro exI [of _ "[(0x000d, frame, None)]"]) (simp add: command_write_def)
    qed
  qed
qed

lemma sleep_same: "sleep w t s = (r, s') \<Longrightarrow> s' = s"
  by (auto simp: sleep_def split: option.splits)

lemma seq_sent:
  assumes f: "\<And>r s s'. f s = (r, s') \<Longrightarrow> sent_commands s s'"
    and g: "\<And>r s s'. g s = (r, s') \<Longrightarrow> sent_commands s s'"
    and "seq f g s = (r, s')"
  shows "sent_commands s s'"
proof (cases "f s")
  case (Pair rf sf)
  then have 1: "sent_commands s sf" by (rule f)
  show ?thesis
  proof (cases rf)
    case (Inl e)
    with Pair assms(3) have "s' = sf" by (simp add: seq_def)
    with 1 show ?thesis by simp
  next
    case (Inr u)
    with Pair assms(3) have "g sf = (r, s')" by (simp add: seq_def)
    then have "sent_commands sf s'" by (rule g)
    with 1 show ?thesis by (rule sent_commands_trans)
  qed
qed

lemma run_action_sent: "run_action w a s = (r, s') \<Longrightarrow> sent_commands s s'"
proof (cases a)
  case (SendCommand c d)
  assume "run_action w a s = (r, s')"
  with SendCommand show ?thesis by (simp add: send_droid_command_sent)
next
  case (SendMultiCommand c d)
  assume "run_action w a s = (r, s')"
  with SendMultiCommand show ?thesis
    by (simp add: send_droid_multi_command_def send_droid_command_sent)
next
  case (Delay t)
  assume "run_action w a s = (r, s')"
  with Delay have "s' = s" by (simp add: sleep_same)
  then show ?thesis by (simp add: sent_commands_refl)
next
  case (Fail e)
  assume "run_action w a s = (r, s')"
  with Fail have "s' = s" by (simp add: py_raise_def)
  then show ?thesis by (simp add: sent_commands_refl)
qed

lemma run_actions_sent: "run_actions w as s = (r, s') \<Longrightarrow> sent_commands s s'"
proof (induction as arbitrary: s r s')
  case Nil
  then show ?case by (simp add: py_pass_def sent_commands_refl)
next
  case (Cons a as)
  from Cons.prems have "seq (run_action w a) (run_actions w as) s = (r, s')" by simp
  then show ?case
    by (rule seq_sent [rotated 2]) (erule run_action_sent, erule Cons.IH)
qed

section \<open>Properties of connect\<close>

lemma sent_commands_fields:
  assumes "sent_commands s s'"
  shows "personality_id s' = personality_id s" "affilliation_id s' = affilliation_id s"
    "heartbeat_loop s' = heartbeat_loop s" "heartbeat_thread s' = heartbeat_thread s"
    "manufacturer_data s' = manufacturer_data s" "profile s' = profile s"
    "droid s = None \<Longrightarrow> droid s' = None"
  using assms unfolding sent_commands_def by auto

lemma sent_commands_client:
  assumes "sent_commands s s'" "droid s = Some c"
  shows "\<exists>ws. list_all command_write ws \<and> droid s' = Some (c\<lparr>gatt_writes := gatt_writes c @ ws\<rparr>)"
  using assms unfolding sent_commands_def by auto

lemma open_transport_reachable:
  "peer_reachable w \<Longrightarrow>
     open_transport w s = (Inr (), s\<lparr>droid := Some (connected_client (profile s))\<rparr>)"
  by (simp add: open_transport_def client_connect_def connected_client_def Let_def)

lemma open_transport_unreachable:
  "\<not> peer_reachable w \<Longrightarrow>
     open_transport w s = (Inl BleakError, s\<lparr>droid := Some (new_client (profile s))\<rparr>)"
  by (simp add: open_transport_def client_connect_def Let_def)

lemma wait_connected_connected:
  "droid s = Some c \<Longrightarrow> is_connected c \<Longrightarrow> wait_connected w n s = (Inr (), s)"
  by (simp add: wait_connected.simps)

lemma fromhex_222001: "fromhex ''222001'' = Some [0x22, 0x20, 0x01]"
  by (simp add: isspace_def hexval_def)

lemma handshake_eq:
  "handshake s =
     seq (write_gatt_char 0x000d [0x22, 0x20, 0x01] (Some False))
         (write_gatt_char 0x000d [0x22, 0x20, 0x01] (Some False)) s"
  by (simp only: handshake_def fromhex_222001 option.case)

lemma handshake_connected:
  assumes "droid s = Some c" "is_connected c"
  shows "handshake s = (Inr (), s\<lparr>droid := Some (c\<lparr>gatt_writes := gatt_writes c @ [handshake_write, handshake_write]\<rparr>)\<rparr>)"
  using assms
  by (simp add: handshake_eq seq_def write_gatt_char_def client_write_def handshake_write_def)

lemma connect_prefix_reachable:
  assumes "peer_reachable w"
  shows "seq (open_transport w) (seq (wait_connected w 0) handshake) s = (Inr (), handshaken s)"
proof -
  let ?s1 = "s\<lparr>droid := Some (connected_client (profile s))\<rparr>"
  have c: "droid ?s1 = Some (connected_client (profile s))" "is_connected (connected_client (profile s))"
    by (simp_all add: connected_client_def)
  have "handshake ?s1 = (Inr (), ?s1\<lparr>droid := Some ((connected_client (profile s))
           \<lparr>gatt_writes := gatt_writes (connected_client (profile s)) @ [handshake_write, handshake_write]\<rparr>)\<rparr>)"
    by (rule handshake_connected [OF c])
  then have "handshake ?s1 = (Inr (), handshaken s)"
    by (simp add: handshaken_def connected_client_def new_client_def)
  with assms c show ?thesis
    by (simp add: seq_def open_transport_reachable wait_connected_connected [OF c])
qed

lemma connect_prefix_unreachable:
  assumes "\<not> peer_reachable w"
  shows "seq (open_transport w) (seq (wait_connected w 0) handshake) s
           = (Inl BleakError, s\<lparr>droid := Some (new_client (profile s))\<rparr>)"
  using assms by (simp add: seq_def open_transport_unreachable)

lemma seq_assoc: "seq (seq f g) h = seq f (seq g h)"
  by (rule ext) (simp add: seq_def split: prod.splits sum.splits)

lemma connect_split:
  "connect w silent =
     seq (seq (open_transport w) (seq (wait_connected w 0) handshake))
         (seq (derive_identity w) (connect_rest w silent))"
  by (simp add: connect_def seq_assoc)

lemma pairing_sent:
  "(if \<not> silent then seq (execute_script w (DroidPairingSequence1 w)) (sleep w 4) else py_pass) s = (r, s')
     \<Longrightarrow> sent_commands s s'"
proof (cases silent)
  case True
  assume "(if \<not> silent then seq (execute_script w (DroidPairingSequence1 w)) (sleep w 4) else py_pass) s = (r, s')"
  with True show ?thesis by (simp add: py_pass_def sent_commands_refl)
next
  case False
  assume "(if \<not> silent then seq (execute_script w (DroidPairingSequence1 w)) (sleep w 4) else py_pass) s = (r, s')"
  with False have "seq (run_actions w (DroidPairingSequence1 w)) (sleep w 4) s = (r, s')"
    by (simp add: execute_script_def)
  then show ?thesis
  proof (rule seq_sent [rotated 2])
    show "\<And>r s s'. run_actions w (DroidPairingSequence1 w) s = (r, s') \<Longrightarrow> sent_commands s s'"
      by (rule run_actions_sent)
    show "\<And>r s s'. sleep w 4 s = (r, s') \<Longrightarrow> sent_commands s s'"
      by (auto dest: sleep_same simp: sent_commands_refl)
  qed
qed

lemma connect_rest_effect:
  assumes "connect_rest w silent s = (r, s')"
  shows "\<exists>s1. sent_commands s s1 \<and>
           (s' = s1 \<or> s' = s1\<lparr>heartbeat_thread := True\<rparr>
            \<or> s' = s1\<lparr>heartbeat_thread := True, heartbeat_loop := Some LoopRunning\<rparr>)"
proof (cases "(if \<not> silent then seq (execute_script w (DroidPairingSequence1 w)) (sleep w 4) else py_pass) s")
  case (Pair r1 s1)
  then have 1: "sent_commands s s1" by (rule pairing_sent)
  show ?thesis
  proof (cases r1)
    case (Inl e)
    with Pair assms have "s' = s1" by (simp add: connect_rest_def seq_def)
    with 1 show ?thesis by blast
  next
    case (Inr u)
    with Pair assms have "start_heartbeat s1 = (r, s')" by (simp add: connect_rest_def seq_def)
    then have "s' = s1\<lparr>heartbeat_thread := True\<rparr>
            \<or> s' = s1\<lparr>heartbeat_thread := True, heartbeat_loop := Some LoopRunning\<rparr>"
      by (auto simp: start_heartbeat_def split: option.splits)
    with 1 show ?thesis by blast
  qed
qed

lemma connect_rest_identity:
  assumes "connect_rest w silent s = (r, s')"
  shows "personality_id s' = personality_id s" "affilliation_id s' = affilliation_id s"
  using connect_rest_effect [OF assms] by (auto dest: sent_commands_fields)

lemma connect_rest_writes:
  assumes "connect_rest w silent s = (r, s')" "droid s = Some c"
  shows "\<exists>ws. list_all command_write ws \<and> writes_of s' = gatt_writes c @ ws"
proof -
  from connect_rest_effect [OF assms(1)] obtain s1 where 1: "sent_commands s s1"
    and 2: "s' = s1 \<or> s' = s1\<lparr>heartbeat_thread := True\<rparr>
            \<or> s' = s1\<lparr>heartbeat_thread := True, heartbeat_loop := Some LoopRunning\<rparr>"
    by blast
  from sent_commands_client [OF 1 assms(2)] obtain ws where ws: "list_all command_write ws"
    "droid s1 = Some (c\<lparr>gatt_writes := gatt_writes c @ ws\<rparr>)" by blast
  from 2 ws(2) have "writes_of s' = gatt_writes c @ ws" by (auto simp: writes_of_def)
  with ws(1) show ?thesis by blast
qed

lemma connect_reachable:
  "peer_reachable w \<Longrightarrow>
     connect w silent s = seq (derive_identity w) (connect_rest w silent) (handshaken s)"
  by (simp add: connect_split seq_def [of "seq (open_transport w) (seq (wait_connected w 0) handshake)"]
      connect_prefix_reachable)

lemma connect_unreachable:
  "\<not> peer_reachable w \<Longrightarrow>
     connect w silent s = (Inl BleakError, s\<lparr>droid := Some (new_client (profile s))\<rparr>)"
  by (simp add: connect_split seq_def [of "seq (open_transport w) (seq (wait_connected w 0) handshake)"]
      connect_prefix_unreachable)

lemma derive_identity_droid: "derive_identity w s = (r, s') \<Longrightarrow> droid s' = droid s"
  by (auto simp: derive_identity_def Let_def split: option.splits sum.splits)

lemma command_write_not_handshake: "command_write x \<Longrightarrow> \<not> is_handshake_frame x"
  by (auto simp: command_write_def is_handshake_frame_def split: prod.splits)

lemma filter_commands: "list_all command_write ws \<Longrightarrow> filter is_handshake_frame ws = []"
  by (induction ws) (simp_all add: command_write_not_handshake)

lemma connect_writes:
  assumes "peer_reachable w" "fst (connect w silent s) = Inr ()"
  shows "\<exists>ws. list_all command_write ws \<and>
           writes_of (snd (connect w silent s)) = [handshake_write, handshake_write] @ ws"
proof -
  obtain r1 s1 where d: "derive_identity w (handshaken s) = (r1, s1)" by force
  from assms d obtain u where r1: "r1 = Inr u"
    by (cases r1) (simp_all add: connect_reachable seq_def)
  with assms d have c: "connect w silent s = connect_rest w silent s1"
    by (simp add: connect_reachable seq_def)
  obtain r s' where rest: "connect_rest w silent s1 = (r, s')" by force
  from derive_identity_droid [OF d]
  have "droid s1 = Some ((connected_client (profile s))\<lparr>gatt_writes := [handshake_write, handshake_write]\<rparr>)"
    by (simp add: handshaken_def)
  from connect_rest_writes [OF rest this] c rest show ?thesis by simp
qed

text \<open>
  Claim C8. \<open>connect\<close> derives the identity on the session the handshake has left, and
  only when the peer was reachable. On that session the transport has received exactly
  the two handshake writes, each of the bytes \<open>22 20 01\<close> to handle \<open>0x000d\<close>, and
  the identity fields are still those of the start. When \<open>connect\<close> returns normally,
  the two handshake writes are the first two writes of the transport and no later write
  carries the handshake frame.
\<close>

theorem connect_handshake_before_identity:
  "connect w silent s =
     (if peer_reachable w then seq (derive_identity w) (connect_rest w silent) (handshaken s)
      else (Inl BleakError, s\<lparr>droid := Some (new_client (profile s))\<rparr>)) \<and>
   writes_of (handshaken s) = [handshake_write, handshake_write] \<and>
   personality_id (handshaken s) = personality_id s \<and>
   affilliation_id (handshaken s) = affilliation_id s \<and>
   (fst (connect w silent s) = Inr () \<longrightarrow>
      take 2 (writes_of (snd (connect w silent s))) = [handshake_write, handshake_write] \<and>
      length (filter is_handshake_frame (writes_of (snd (connect w silent s)))) = 2)"
proof -
  have 1: "connect w silent s =
     (if peer_reachable w then seq (derive_identity w) (connect_rest w silent) (handshaken s)
      else (Inl BleakError, s\<lparr>droid := Some (new_client (profile s))\<rparr>))"
    by (simp add: connect_reachable connect_unreachable)
  have 2: "writes_of (handshaken s) = [handshake_write, handshake_write]"
    "personality_id (handshaken s) = personality_id s"
    "affilliation_id (handshaken s) = affilliation_id s"
    by (simp_all add: handshaken_def writes_of_def)
  have 3: "take 2 (writes_of (snd (connect w silent s))) = [handshake_write, handshake_write] \<and>
      length (filter is_handshake_frame (writes_of (snd (connect w silent s)))) = 2"
    if ok: "fst (connect w silent s) = Inr ()"
  proof -
    from ok have reach: "peer_reachable w"
      by (rule contrapos_pp) (simp add: connect_unreachable)
    from connect_writes [OF reach ok] obtain ws where ws: "list_all command_write ws"
      "writes_of (snd (connect w silent s)) = [handshake_write, handshake_write] @ ws" by blast
    have "is_handshake_frame handshake_write" by (simp add: is_handshake_frame_def handshake_write_def)
    with ws show ?thesis by (simp add: filter_commands)
  qed
  from 1 2 3 show ?thesis by blast
qed

lemma getitem_last:
  assumes "xs \<noteq> []"
  shows "getitem xs (int (length xs) - 1) = Inr (uint (last xs))"
proof -
  from assms have pos: "0 < length xs" by simp
  then have "nat (int (length xs) - 1) = length xs - 1" by linarith
  moreover from assms have "last xs = xs ! (length xs - 1)" by (rule last_conv_nth)
  moreover from pos have "\<not> int (length xs) - 1 < 0" by linarith
  ultimately show ?thesis by (simp add: getitem_def Let_def)
qed

lemma getitem_second_last:
  assumes "2 \<le> length xs"
  shows "getitem xs (int (length xs) - 2) = Inr (uint (last (butlast xs)))"
proof -
  have ne: "butlast xs \<noteq> []"
  proof
    assume "butlast xs = []"
    then have "length (butlast xs) = length ([] :: byte list)" by (rule arg_cong)
    with assms show False by simp
  qed
  have "last (butlast xs) = butlast xs ! (length (butlast xs) - 1)"
    using ne by (rule last_conv_nth)
  also have "length (butlast xs) - 1 = length xs - 2" by simp
  also have "butlast xs ! (length xs - 2) = xs ! (length xs - 2)"
    using assms by (simp add: nth_butlast)
  finally have l: "last (butlast xs) = xs ! (length xs - 2)" .
  from assms have n: "nat (int (length xs) - 2) = length xs - 2" by linarith
  from assms have "\<not> int (length xs) - 2 < 0" by linarith
  with l n show ?thesis by (simp add: getitem_def Let_def)
qed

lemma derive_identity_ok:
  assumes "map_of (manufacturer_data s) (DisneyManufacturerId w) = Some vendor" "2 \<le> length vendor"
  shows "derive_identity w s =
           (Inr (), s\<lparr>personality_id := uint (last vendor),
                      affilliation_id := (of_int (uint (last (butlast vendor))) - 0x80) / 2\<rparr>)"
proof -
  from assms(2) have "vendor \<noteq> []" by auto
  then show ?thesis using assms
    by (simp add: derive_identity_def Let_def getitem_last getitem_second_last)
qed

text \<open>
  Claim C4. When the peer is reachable and the vendor data has at least two bytes,
  \<open>connect\<close> leaves \<open>personality_id\<close> equal to the last byte and \<open>affilliation_id\<close>
  equal to (second-to-last byte \<open>- 0x80) / 2\<close>, whatever the later steps of \<open>connect\<close>
  do; on vendor data ending in \<open>0x80, 0x07\<close> these are 7 and 0.
\<close>

theorem connect_identity:
  assumes "peer_reachable w"
    and "map_of (manufacturer_data s) (DisneyManufacturerId w) = Some vendor"
    and "2 \<le> length vendor"
  shows "personality_id (snd (connect w silent s)) = uint (last vendor) \<and>
         affilliation_id (snd (connect w silent s)) = (of_int (uint (last (butlast vendor))) - 0x80) / 2 \<and>
         (last (butlast vendor) = 0x80 \<and> last vendor = 0x07 \<longrightarrow>
            affilliation_id (snd (connect w silent s)) = 0 \<and> personality_id (snd (connect w silent s)) = 7)"
proof -
  let ?s1 = "(handshaken s)\<lparr>personality_id := uint (last vendor),
                      affilliation_id := (of_int (uint (last (butlast vendor))) - 0x80) / 2\<rparr>"
  from assms(2) have "map_of (manufacturer_data (handshaken s)) (DisneyManufacturerId w) = Some vendor"
    by (simp add: handshaken_def)
  from derive_identity_ok [OF this assms(3)] assms(1)
  have c: "connect w silent s = connect_rest w silent ?s1"
    by (simp add: connect_reachable seq_def)
  obtain r s' where rest: "connect_rest w silent ?s1 = (r, s')" by force
  from connect_rest_identity [OF rest] c rest
  have p: "personality_id (snd (connect w silent s)) = uint (last vendor)"
    and a: "affilliation_id (snd (connect w silent s)) = (of_int (uint (last (butlast vendor))) - 0x80) / 2"
    by simp_all
  have "affilliation_id (snd (connect w silent s)) = 0 \<and> personality_id (snd (connect w silent s)) = 7"
    if "last (butlast vendor) = 0x80 \<and> last vendor = 0x07"
    using that by (simp add: p a)
  with p a show ?thesis by blast
qed

lemma example_reachable: "peer_reachable example_world"
  by (simp add: example_world_def)

lemma example_vendor:
  "map_of (manufacturer_data example_session) (DisneyManufacturerId example_world) = Some [0x03, 0x04, 0x80, 0x07]"
  by (simp add: example_session_def example_world_def DroidConnection_init_def)

theorem connect_identity_witness:
  "peer_reachable example_world \<and>
   map_of (manufacturer_data example_session) (DisneyManufacturerId example_world) = Some [0x03, 0x04, 0x80, 0x07] \<and>
   2 \<le> length [0x03, 0x04, 0x80, 0x07 :: byte] \<and>
   last (butlast [0x03, 0x04, 0x80, 0x07 :: byte]) = 0x80 \<and> last [0x03, 0x04, 0x80, 0x07 :: byte] = 0x07 \<and>
   affilliation_id (snd (connect example_world False example_session)) = 0 \<and>
   personality_id (snd (connect example_world False example_session)) = 7"
proof -
  have l: "2 \<le> length [0x03, 0x04, 0x80, 0x07 :: byte]" by simp
  have v: "last (butlast [0x03, 0x04, 0x80, 0x07 :: byte]) = 0x80 \<and> last [0x03, 0x04, 0x80, 0x07 :: byte] = 0x07"
    by simp
  from connect_identity [OF example_reachable example_vendor l, of False] v
  have "affilliation_id (snd (connect example_world False example_session)) = 0 \<and>
        personality_id (snd (connect example_world False example_session)) = 7"
    by blast
  with example_reachable example_vendor l v show ?thesis by blast
qed

lemma example_connect:
  "connect example_world False example_session =
     (Inr (),
      \<lparr>profile = example_device,
       droid = Some \<lparr>peer = example_device, is_connected = True,
                     gatt_writes = [handshake_write, handshake_write,
                                    (0x000d, [0x26, 0x42, 0x0f, 0x43, 0x44, 0x05, 0xff], None)],
                     disconnect_calls = 0\<rparr>,
       manufacturer_data = [(0x0183, [0x03, 0x04, 0x80, 0x07])],
       personality_id = 7, affilliation_id = 0,
       heartbeat_loop = Some LoopRunning, heartbeat_thread = True\<rparr>)"
  by code_simp

theorem connect_handshake_before_identity_witness:
  "fst (connect example_world False example_session) = Inr () \<and>
   peer_reachable example_world \<and>
   take 2 (writes_of (snd (connect example_world False example_session))) = [handshake_write, handshake_write] \<and>
   length (filter is_handshake_frame (writes_of (snd (connect example_world False example_session)))) = 2 \<and>
   writes_of (snd (connect example_world False example_session)) =
     [handshake_write, handshake_write, (0x000d, [0x26, 0x42, 0x0f, 0x43, 0x44, 0x05, 0xff], None)]"
proof -
  have ok: "fst (connect example_world False example_session) = Inr ()"
    by (simp add: example_connect)
  have w: "writes_of (snd (connect example_world False example_session)) =
     [handshake_write, handshake_write, (0x000d, [0x26, 0x42, 0x0f, 0x43, 0x44, 0x05, 0xff], None)]"
    by (simp add: example_connect writes_of_def)
  from connect_handshake_before_identity [of example_world False example_session] ok
  have "take 2 (writes_of (snd (connect example_world False example_session))) = [handshake_write, handshake_write] \<and>
   length (filter is_handshake_frame (writes_of (snd (connect example_world False example_session)))) = 2"
    by blast
  with ok w example_reachable show ?thesis by blast
qed

text \<open>
  Claim C3 fails on the code. With vendor data of a single byte \<open>b\<close>, the index
  \<open>droid_data_len - 2\<close> is \<open>-1\<close>, which Python reads as the last byte: \<open>connect\<close>
  returns normally with \<open>personality_id = b\<close> and \<open>affilliation_id = (b - 0x80) / 2\<close>.
  Only empty vendor data raises, and then \<open>IndexError\<close>.
\<close>

theorem connect_one_byte_vendor_data:
  "fst (connect (w\<lparr>peer_reachable := True\<rparr>) True
          (DroidConnection_init w dev [(DisneyManufacturerId w, [b])])) = Inr () \<and>
   personality_id (snd (connect (w\<lparr>peer_reachable := True\<rparr>) True
          (DroidConnection_init w dev [(DisneyManufacturerId w, [b])]))) = uint b \<and>
   affilliation_id (snd (connect (w\<lparr>peer_reachable := True\<rparr>) True
          (DroidConnection_init w dev [(DisneyManufacturerId w, [b])]))) = (of_int (uint b) - 0x80) / 2 \<and>
   fst (connect (w\<lparr>peer_reachable := True\<rparr>) True
          (DroidConnection_init w dev [(DisneyManufacturerId w, [])])) = Inl IndexError"
proof -
  let ?w = "w\<lparr>peer_reachable := True\<rparr>"
  have r: "peer_reachable ?w" by simp
  have g: "getitem [b] 0 = Inr (uint b)" "getitem [b] (- 1) = Inr (uint b)" "getitem [] (- 1) = Inl IndexError"
    by (simp_all add: getitem_def)
  have 1: "connect ?w True (DroidConnection_init w dev [(DisneyManufacturerId w, [b])]) =
      (Inr (), (handshaken (DroidConnection_init w dev [(DisneyManufacturerId w, [b])]))
          \<lparr>personality_id := uint b, affilliation_id := (of_int (uint b) - 0x80) / 2,
           heartbeat_thread := True, heartbeat_loop := Some LoopRunning\<rparr>)"
    by (simp add: connect_reachable [OF r] seq_def derive_identity_def handshaken_def
        DroidConnection_init_def g connect_rest_def py_pass_def start_heartbeat_def)
  have 2: "fst (connect ?w True (DroidConnection_init w dev [(DisneyManufacturerId w, [])])) = Inl IndexError"
    by (simp add: connect_reachable [OF r] seq_def derive_identity_def handshaken_def
        DroidConnection_init_def g)
  from 1 2 show ?thesis by simp
qed

section \<open>Properties of disconnect\<close>

lemma close_transport_none: "droid s = None \<Longrightarrow> close_transport s = (Inl AttributeError, s)"
  by (simp add: close_transport_def)

lemma shutdown_cue_sent:
  "(if \<not> silent then seq (play_shutdown_audio w) (sleep w 3) else py_pass) s = (r, s')
     \<Longrightarrow> sent_commands s s'"
proof (cases silent)
  case True
  assume "(if \<not> silent then seq (play_shutdown_audio w) (sleep w 3) else py_pass) s = (r, s')"
  with True show ?thesis by (simp add: py_pass_def sent_commands_refl)
next
  case False
  assume "(if \<not> silent then seq (play_shutdown_audio w) (sleep w 3) else py_pass) s = (r, s')"
  with False have "seq (run_actions w (shutdown_audio w)) (sleep w 3) s = (r, s')"
    by (simp add: play_shutdown_audio_def)
  then show ?thesis
  proof (rule seq_sent [rotated 2])
    show "\<And>r s s'. run_actions w (shutdown_audio w) s = (r, s') \<Longrightarrow> sent_commands s s'"
      by (rule run_actions_sent)
    show "\<And>r s s'. sleep w 3 s = (r, s') \<Longrightarrow> sent_commands s s'"
      by (auto dest: sleep_same simp: sent_commands_refl)
  qed
qed

lemma disconnect_unfold:
  assumes "(if \<not> silent then seq (play_shutdown_audio w) (sleep w 3) else py_pass) s = (r, s1)"
  shows "disconnect w silent s =
           (case seq close_transport stop_heartbeat_loop s1 of
              (Inl e, s2) \<Rightarrow> (Inl e, s2) | (Inr u, s2) \<Rightarrow> (r, s2))"
  using assms by (simp add: disconnect_def try_finally_def)

text \<open>
  Claim C6. On a session that has a transport handle, \<open>disconnect\<close> closes the
  transport exactly once, whatever the shutdown cue and the settle delay do: afterwards
  the client is not connected and has received one more \<open>disconnect()\<close> call. The
  outcome of \<open>disconnect\<close> is the outcome of the cue and the delay, so their exception
  is raised after the transport is closed, and the heartbeat loop is stopped.
\<close>

theorem disconnect_closes_transport:
  assumes "droid s = Some c"
  shows "(\<exists>c'. droid (snd (disconnect w silent s)) = Some c' \<and> \<not> is_connected c' \<and>
               disconnect_calls c' = Suc (disconnect_calls c)) \<and>
         fst (disconnect w silent s) =
           fst ((if \<not> silent then seq (play_shutdown_audio w) (sleep w 3) else py_pass) s) \<and>
         (heartbeat_loop s \<noteq> None \<longrightarrow> heartbeat_loop (snd (disconnect w silent s)) = Some LoopStopped)"
proof -
  obtain r s1 where body: "(if \<not> silent then seq (play_shutdown_audio w) (sleep w 3) else py_pass) s = (r, s1)"
    by force
  then have sent: "sent_commands s s1" by (rule shutdown_cue_sent)
  from sent_commands_client [OF sent assms] obtain ws where
    c1: "droid s1 = Some (c\<lparr>gatt_writes := gatt_writes c @ ws\<rparr>)" by blast
  have hl: "heartbeat_loop s1 = heartbeat_loop s" using sent by (rule sent_commands_fields)
  let ?c' = "client_disconnect (c\<lparr>gatt_writes := gatt_writes c @ ws\<rparr>)"
  let ?s2 = "s1\<lparr>droid := Some ?c'\<rparr>"
  have fin: "seq close_transport stop_heartbeat_loop s1 =
      (Inr (), if heartbeat_loop s \<noteq> None then ?s2\<lparr>heartbeat_loop := Some LoopStopped\<rparr> else ?s2)"
    using c1 hl by (simp add: seq_def close_transport_def stop_heartbeat_loop_def)
  have d: "disconnect w silent s =
      (r, if heartbeat_loop s \<noteq> None then ?s2\<lparr>heartbeat_loop := Some LoopStopped\<rparr> else ?s2)"
    by (simp add: disconnect_unfold [OF body] fin)
  have "droid (snd (disconnect w silent s)) = Some ?c'" by (simp add: d)
  moreover have "\<not> is_connected ?c'" "disconnect_calls ?c' = Suc (disconnect_calls c)"
    by (simp_all add: client_disconnect_def)
  moreover have "fst (disconnect w silent s) = r" by (simp add: d)
  moreover have "heartbeat_loop s \<noteq> None \<longrightarrow> heartbeat_loop (snd (disconnect w silent s)) = Some LoopStopped"
    by (simp add: d)
  ultimately show ?thesis using body by auto
qed

text \<open>
  Claim C7 fails on the code. On a session that was never connected \<open>self.droid\<close> is
  \<open>None\<close>, and \<open>disconnect\<close> raises \<open>AttributeError\<close> from its \<open>finally\<close> block,
  with \<open>silent\<close> set or not. On the concrete run, the first \<open>disconnect\<close> after
  \<open>connect\<close> returns normally and the second raises \<open>BleakError\<close>, because the
  shutdown cue writes to the closed transport.
\<close>

theorem disconnect_not_idempotent:
  "fst (disconnect w silent (DroidConnection_init w dev mdata)) = Inl AttributeError \<and>
   fst (disconnect example_world False example_connected) = Inr () \<and>
   fst (disconnect example_world False (snd (disconnect example_world False example_connected)))
     = Inl BleakError"
proof -
  let ?s = "DroidConnection_init w dev mdata"
  obtain r s1 where body: "(if \<not> silent then seq (play_shutdown_audio w) (sleep w 3) else py_pass) ?s = (r, s1)"
    by force
  then have "sent_commands ?s s1" by (rule shutdown_cue_sent)
  moreover have "droid ?s = None" by (simp add: DroidConnection_init_def)
  ultimately have "droid s1 = None" by (rule sent_commands_fields)
  then have "seq close_transport stop_heartbeat_loop s1 = (Inl AttributeError, s1)"
    by (simp add: seq_def close_transport_none)
  then have 1: "fst (disconnect w silent ?s) = Inl AttributeError"
    by (simp add: disconnect_unfold [OF body])
  have 2: "fst (disconnect example_world False example_connected) = Inr ()"
    unfolding example_connected_def by code_simp
  have 3: "fst (disconnect example_world False (snd (disconnect example_world False example_connected)))
     = Inl BleakError"
    unfolding example_connected_def by code_simp
  from 1 2 3 show ?thesis by simp
qed

section \<open>Properties of the keep-alive task\<close>



lemma heartbeat_frame_bytes:
  "in_byte_range (FlashPairingLed w) \<Longrightarrow>
     map uint (heartbeat_frame w) =
       [0x2c, (if FlashPairingLed w = 15 then 0x42 else 0x00), FlashPairingLed w, 0x49,
        0x02, 0x00, 0x01, 0xff, 0x01, 0xff, 0x0a, 0xff, 0x00]"
  by (simp add: heartbeat_frame_def spec_frame_header_def uint_word_of_int_byte)















section \<open>Properties of discovery\<close>

text \<open>
  Claim C10. With \<open>retry = False\<close> the test of the \<open>while\<close> loop fails at once, so
  \<open>discover_droid\<close> returns \<open>None\<close> whatever the scanner reports, also when devices
  named \<open>"DROID"\<close> are reported.
\<close>

theorem discover_droid_without_retry: "discover_droid w scan False = Some None"
  by (simp add: discover_droid_def scan_loop.simps)

lemma discover_droid_retry_found:
  assumes "name dev = Some ''DROID''"
  shows "discover_droid w (\<lambda>k. [(addr, dev, adv)]) True
           = Some (Some (DroidConnection_init w dev (adv_manufacturer_data adv)))"
proof -
  have "scan_loop (\<lambda>k. [(addr, dev, adv)]) True (Suc 0) [(dev, adv_manufacturer_data adv)]
            (Some (dev, adv_manufacturer_data adv))
          = Some (Left (Some (dev, adv_manufacturer_data adv)))"
    by (subst scan_loop.simps) simp
  with assms have "scan_loop (\<lambda>k. [(addr, dev, adv)]) True 0 [] None
          = Some (Left (Some (dev, adv_manufacturer_data adv)))"
    by (subst scan_loop.simps) simp
  then show ?thesis by (simp add: discover_droid_def)
qed

section \<open>Instances on the concrete run\<close>

text \<open>
  Claim C2 fails on the code. The docstrings call \<open>data\<close> a string of hexadecimal
  digits and promise \<open>ValueError\<close> for a malformed one, and the header is computed from
  \<open>len(data) // 2\<close>, which counts on a string without whitespace. But \<open>bytes.fromhex\<close>
  skips whitespace: \<open>"ff "\<close> has odd length and contains a character that is not a
  hexadecimal digit, and the encoder returns a frame, which \<open>send_droid_command\<close>
  writes to the transport. For \<open>"ff  "\<close> the frame written announces two payload bytes
  and carries one.
\<close>

theorem build_droid_command_whitespace_accepted:
  "odd (length ''ff '') \<and> \<not> list_all is_hexdigit ''ff '' \<and>
   build_droid_command 3 ''ff '' = Inr [0x24, 0x00, 0x03, 0x41, 0xff] \<and>
   writes_of (snd (send_droid_command 3 ''ff '' example_connected))
     = writes_of example_connected @ [(0x000d, [0x24, 0x00, 0x03, 0x41, 0xff], None)] \<and>
   \<not> list_all is_hexdigit ''ff  '' \<and>
   build_droid_command 3 ''ff  '' = Inr [0x25, 0x00, 0x03, 0x42, 0xff]"
proof -
  have 1: "odd (length ''ff '')" by simp
  have 2: "\<not> list_all is_hexdigit ''ff ''" "\<not> list_all is_hexdigit ''ff  ''"
    by (simp_all add: is_hexdigit_def hexval_def)
  have 3: "build_droid_command 3 ''ff '' = Inr [0x24, 0x00, 0x03, 0x41, 0xff]"
    by (simp add: build_droid_command_unfold spec_frame_header_def bytearray_of_def in_byte_range_def
        isspace_def hexval_def)
  have 4: "writes_of (snd (send_droid_command 3 ''ff '' example_connected))
     = writes_of example_connected @ [(0x000d, [0x24, 0x00, 0x03, 0x41, 0xff], None)]"
    unfolding example_connected_def by code_simp
  have 5: "build_droid_command 3 ''ff  '' = Inr [0x25, 0x00, 0x03, 0x42, 0xff]"
    by (simp add: build_droid_command_unfold spec_frame_header_def bytearray_of_def in_byte_range_def
        isspace_def hexval_def)
  from 1 2 3 4 5 show ?thesis by blast
qed

lemma example_connected_droid:
  "droid example_connected =
     Some \<lparr>peer = example_device, is_connected = True,
           gatt_writes = [handshake_write, handshake_write,
                          (0x000d, [0x26, 0x42, 0x0f, 0x43, 0x44, 0x05, 0xff], None)],
           disconnect_calls = 0\<rparr>"
  by (simp add: example_connected_def example_connect)

theorem disconnect_closes_transport_witness:
  "droid example_connected =
     Some \<lparr>peer = example_device, is_connected = True,
           gatt_writes = [handshake_write, handshake_write,
                          (0x000d, [0x26, 0x42, 0x0f, 0x43, 0x44, 0x05, 0xff], None)],
           disconnect_calls = 0\<rparr> \<and>
   heartbeat_loop example_connected \<noteq> None \<and>
   fst (disconnect failing_cue_world False example_connected) = Inl BleakError \<and>
   map_option is_connected (droid (snd (disconnect failing_cue_world False example_connected))) = Some False \<and>
   map_option disconnect_calls (droid (snd (disconnect failing_cue_world False example_connected))) = Some 1 \<and>
   heartbeat_loop (snd (disconnect failing_cue_world False example_connected)) = Some LoopStopped"
proof -
  have hl: "heartbeat_loop example_connected \<noteq> None"
    by (simp add: example_connected_def example_connect)
  have cue: "fst ((if \<not> False then seq (play_shutdown_audio failing_cue_world) (sleep failing_cue_world 3)
                   else py_pass) example_connected) = Inl BleakError"
    unfolding example_connected_def by code_simp
  from disconnect_closes_transport [OF example_connected_droid, of failing_cue_world False] hl cue
  have "map_option is_connected (droid (snd (disconnect failing_cue_world False example_connected))) = Some False"
    "map_option disconnect_calls (droid (snd (disconnect failing_cue_world False example_connected))) = Some 1"
    "fst (disconnect failing_cue_world False example_connected) = Inl BleakError"
    "heartbeat_loop (snd (disconnect failing_cue_world False example_connected)) = Some LoopStopped"
    by auto
  with hl example_connected_droid show ?thesis by blast
qed



end
